theory Spec2Isabelle
  imports Complex_Main "HOL-Library.AList"
begin

section \<open>JavaScript values of a flight record\<close>

text \<open>
  Every field of an extracted record is declared \<^verbatim>\<open>z.string().nullable()\<close>
  (\<^verbatim>\<open>FlightDataSchema\<close>, eval-final.js), and a key that an object lacks reads as
  \<^verbatim>\<open>undefined\<close>. A field value is therefore \<^verbatim>\<open>undefined\<close>, \<^verbatim>\<open>null\<close> or a string.
  Strict equality \<^verbatim>\<open>===\<close> on these values is equality of the datatype. Strings are lists
  of 8-bit characters, so the model covers the code units 0 to 255.
\<close>

datatype jsval = Undefined | Null | Str string

text \<open>\<^verbatim>\<open>!v\<close>: \<^verbatim>\<open>undefined\<close>, \<^verbatim>\<open>null\<close> and the empty string are falsy.\<close>

definition falsy :: "jsval \<Rightarrow> bool" where
  "falsy v = (case v of Undefined \<Rightarrow> True | Null \<Rightarrow> True | Str s \<Rightarrow> s = [])"

section \<open>JavaScript numbers\<close>

text \<open>
  A number is NaN, an infinity or a finite value. Finite values are exact reals: the
  rounding of binary64, its overflow to an infinity and the sign of zero are not
  modelled. The operations below follow IEEE 754 on the four kinds of value.
\<close>

datatype jsnum = NaN | PInf | NInf | Fin real

fun js_neg :: "jsnum \<Rightarrow> jsnum" where
  "js_neg NaN = NaN"
| "js_neg PInf = NInf"
| "js_neg NInf = PInf"
| "js_neg (Fin a) = Fin (- a)"

fun js_add :: "jsnum \<Rightarrow> jsnum \<Rightarrow> jsnum" where
  "js_add NaN y = NaN"
| "js_add x NaN = NaN"
| "js_add PInf NInf = NaN"
| "js_add NInf PInf = NaN"
| "js_add PInf y = PInf"
| "js_add NInf y = NInf"
| "js_add (Fin a) PInf = PInf"
| "js_add (Fin a) NInf = NInf"
| "js_add (Fin a) (Fin b) = Fin (a + b)"

definition js_sub :: "jsnum \<Rightarrow> jsnum \<Rightarrow> jsnum" where
  "js_sub x y = js_add x (js_neg y)"

text \<open>The sign of an infinite product; an infinity times zero is NaN.\<close>

definition inf_times :: "bool \<Rightarrow> real \<Rightarrow> jsnum" where
  "inf_times positive a =
     (if a = 0 then NaN else if (0 < a) = positive then PInf else NInf)"

fun js_mul :: "jsnum \<Rightarrow> jsnum \<Rightarrow> jsnum" where
  "js_mul NaN y = NaN"
| "js_mul x NaN = NaN"
| "js_mul PInf PInf = PInf"
| "js_mul PInf NInf = NInf"
| "js_mul NInf PInf = NInf"
| "js_mul NInf NInf = PInf"
| "js_mul PInf (Fin b) = inf_times True b"
| "js_mul NInf (Fin b) = inf_times False b"
| "js_mul (Fin a) PInf = inf_times True a"
| "js_mul (Fin a) NInf = inf_times False a"
| "js_mul (Fin a) (Fin b) = Fin (a * b)"

text \<open>
  Division: a finite value over zero is an infinity (zero is taken as positive) and
  zero over zero is NaN, so a division the source does not guard shows in the result.
\<close>

fun js_div :: "jsnum \<Rightarrow> jsnum \<Rightarrow> jsnum" where
  "js_div NaN y = NaN"
| "js_div x NaN = NaN"
| "js_div (Fin a) (Fin b) =
     (if b = 0 then (if a = 0 then NaN else if 0 < a then PInf else NInf)
      else Fin (a / b))"
| "js_div (Fin a) y = Fin 0"
| "js_div PInf (Fin b) = (if 0 \<le> b then PInf else NInf)"
| "js_div NInf (Fin b) = (if 0 \<le> b then NInf else PInf)"
| "js_div x y = NaN"

fun js_abs :: "jsnum \<Rightarrow> jsnum" where
  "js_abs NaN = NaN"
| "js_abs PInf = PInf"
| "js_abs NInf = PInf"
| "js_abs (Fin a) = Fin \<bar>a\<bar>"

text \<open>\<^verbatim>\<open>x <= y\<close> and \<^verbatim>\<open>x < y\<close>: every comparison with NaN is false.\<close>

fun js_le :: "jsnum \<Rightarrow> jsnum \<Rightarrow> bool" where
  "js_le NaN y = False"
| "js_le x NaN = False"
| "js_le NInf y = True"
| "js_le x PInf = True"
| "js_le PInf y = False"
| "js_le x NInf = False"
| "js_le (Fin a) (Fin b) = (a \<le> b)"

fun js_lt :: "jsnum \<Rightarrow> jsnum \<Rightarrow> bool" where
  "js_lt NaN y = False"
| "js_lt x NaN = False"
| "js_lt PInf y = False"
| "js_lt x NInf = False"
| "js_lt NInf y = True"
| "js_lt x PInf = True"
| "js_lt (Fin a) (Fin b) = (a < b)"

section \<open>The built-in conversion of a string to a number\<close>

text \<open>
  \<^verbatim>\<open>Number(s)\<close> on a string (ECMAScript StringToNumber): white space is trimmed, the
  empty string is 0, and the rest is a signed decimal literal (digits, an optional
  fraction, an optional exponent, or \<^verbatim>\<open>Infinity\<close>) or an unsigned binary, octal or
  hexadecimal integer literal; anything else is NaN. Which strings convert, and which
  give NaN or an infinity by their spelling, is as in the language. The value of a
  literal is its exact value: it is the value the code computes where binary64 holds it
  exactly, as for the digit runs of a duration, and theorems that depend on the value
  are stated for such strings only.
\<close>

definition code :: "char \<Rightarrow> nat" where
  "code c = of_char c"

definition is_ws :: "char \<Rightarrow> bool" where
  "is_ws c = (code c \<in> {9, 10, 11, 12, 13, 32, 160})"

definition str_trim :: "string \<Rightarrow> string" where
  "str_trim s = rev (dropWhile is_ws (rev (dropWhile is_ws s)))"

definition is_digit :: "char \<Rightarrow> bool" where
  "is_digit c = (48 \<le> code c \<and> code c \<le> 57)"

text \<open>The value of a digit in a radix up to 16, or none.\<close>

definition radix_digit :: "nat \<Rightarrow> char \<Rightarrow> nat option" where
  "radix_digit radix c =
     (let v = (if 48 \<le> code c \<and> code c \<le> 57 then Some (code c - 48)
               else if 97 \<le> code c \<and> code c \<le> 102 then Some (code c - 87)
               else if 65 \<le> code c \<and> code c \<le> 70 then Some (code c - 55)
               else None)
      in case v of None \<Rightarrow> None | Some d \<Rightarrow> if d < radix then Some d else None)"

fun radix_value :: "nat \<Rightarrow> nat \<Rightarrow> string \<Rightarrow> nat option" where
  "radix_value radix acc [] = Some acc"
| "radix_value radix acc (c # cs) =
     (case radix_digit radix c of
        None \<Rightarrow> None
      | Some d \<Rightarrow> radix_value radix (radix * acc + d) cs)"

text \<open>One or more digits of the radix, read as a natural number.\<close>

definition parse_digits :: "nat \<Rightarrow> string \<Rightarrow> nat option" where
  "parse_digits radix ds = (if ds = [] then None else radix_value radix 0 ds)"

text \<open>The value of a run of decimal digits; the empty run counts 0.\<close>

definition digits_value :: "string \<Rightarrow> nat" where
  "digits_value ds = foldl (\<lambda>acc c. 10 * acc + (code c - 48)) 0 ds"

text \<open>An exponent part after the indicator: an optional sign and decimal digits.\<close>

definition parse_exponent :: "string \<Rightarrow> (bool \<times> nat) option" where
  "parse_exponent r =
     (case r of
        [] \<Rightarrow> None
      | c # ds \<Rightarrow>
          if c = CHR ''+'' then map_option (Pair False) (parse_digits 10 ds)
          else if c = CHR ''-'' then map_option (Pair True) (parse_digits 10 ds)
          else map_option (Pair False) (parse_digits 10 r))"

text \<open>
  An unsigned decimal literal other than \<^verbatim>\<open>Infinity\<close>: integer digits, then an
  optional dot and fraction digits (one of the two digit runs is not empty), then an
  optional exponent; nothing may follow.
\<close>

definition parse_decimal :: "string \<Rightarrow> real option" where
  "parse_decimal u =
     (let ip = takeWhile is_digit u;
          r1 = dropWhile is_digit u;
          dot = (r1 \<noteq> [] \<and> hd r1 = CHR ''.'');
          fp = (if dot then takeWhile is_digit (tl r1) else []);
          r2 = (if dot then dropWhile is_digit (tl r1) else r1);
          mantissa = real (digits_value ip) + real (digits_value fp) / 10 ^ length fp
      in if ip = [] \<and> fp = [] then None
         else if r2 = [] then Some mantissa
         else if hd r2 = CHR ''e'' \<or> hd r2 = CHR ''E'' then
           (case parse_exponent (tl r2) of
              None \<Rightarrow> None
            | Some (negative, n) \<Rightarrow>
                Some (if negative then mantissa / 10 ^ n else mantissa * 10 ^ n))
         else None)"

definition parse_signed :: "string \<Rightarrow> jsnum" where
  "parse_signed t =
     (let negative = (t \<noteq> [] \<and> hd t = CHR ''-'');
          u = (if t \<noteq> [] \<and> (hd t = CHR ''+'' \<or> hd t = CHR ''-'') then tl t else t)
      in if u = ''Infinity'' then (if negative then NInf else PInf)
         else (case parse_decimal u of
                 None \<Rightarrow> NaN
               | Some v \<Rightarrow> Fin (if negative then - v else v)))"

definition of_digits :: "nat option \<Rightarrow> jsnum" where
  "of_digits r = (case r of None \<Rightarrow> NaN | Some n \<Rightarrow> Fin (real n))"

definition Number_js :: "string \<Rightarrow> jsnum" where
  "Number_js s =
     (let t = str_trim s
      in if t = [] then Fin 0
         else if 2 \<le> length t \<and> hd t = CHR ''0'' \<and> (t ! 1 = CHR ''x'' \<or> t ! 1 = CHR ''X'')
           then of_digits (parse_digits 16 (drop 2 t))
         else if 2 \<le> length t \<and> hd t = CHR ''0'' \<and> (t ! 1 = CHR ''o'' \<or> t ! 1 = CHR ''O'')
           then of_digits (parse_digits 8 (drop 2 t))
         else if 2 \<le> length t \<and> hd t = CHR ''0'' \<and> (t ! 1 = CHR ''b'' \<or> t ! 1 = CHR ''B'')
           then of_digits (parse_digits 2 (drop 2 t))
         else parse_signed t)"

text \<open>\<^verbatim>\<open>s.split(':')\<close>: the pieces between the colons, never an empty list.\<close>

fun split_colon :: "string \<Rightarrow> string list" where
  "split_colon [] = [[]]"
| "split_colon (c # cs) =
     (if c = CHR '':'' then [] # split_colon cs
      else (case split_colon cs of
              [] \<Rightarrow> [[c]]
            | p # ps \<Rightarrow> (c # p) # ps))"

section \<open>Durations (eval-final.js)\<close>

text \<open>
  \<^verbatim>\<open>timeToMinutes\<close> returns \<^verbatim>\<open>null\<close> (here \<open>None\<close>) for a falsy argument and for the
  string \<^verbatim>\<open>'null'\<close>. Otherwise the first two pieces of the split string are converted by
  \<^verbatim>\<open>Number\<close>; a missing second piece is \<^verbatim>\<open>undefined\<close>, which the addition converts
  to NaN.
\<close>

definition timeToMinutes :: "jsval \<Rightarrow> jsnum option" where
  "timeToMinutes timeStr =
     (if falsy timeStr \<or> timeStr = Str ''null'' then None
      else (case timeStr of
              Str s \<Rightarrow>
                (let parts = map Number_js (split_colon s);
                     hours = (if 0 < length parts then parts ! 0 else NaN);
                     mins = (if 1 < length parts then parts ! 1 else NaN)
                 in Some (js_add (js_mul hours (Fin 60)) mins))
            | _ \<Rightarrow> None))"

definition getTimeDiffMinutes :: "jsval \<Rightarrow> jsval \<Rightarrow> jsnum" where
  "getTimeDiffMinutes time1 time2 =
     (let mins1 = timeToMinutes time1;
          mins2 = timeToMinutes time2
      in case (mins1, mins2) of
           (Some a, Some b) \<Rightarrow> js_abs (js_sub a b)
         | _ \<Rightarrow> PInf)"

section \<open>Aircraft families (lib/aircraft-utils.js)\<close>

definition AIRCRAFT_FAMILIES :: "(string \<times> string list) list" where
  "AIRCRAFT_FAMILIES =
     [(''Boeing 737'', [''Boeing 737NG'', ''Boeing 737MAX'', ''Boeing 717'']),
      (''Boeing 777'', [''Boeing 777'', ''Boeing 777-200'', ''Boeing 777-300ER'']),
      (''Boeing 787'', [''Boeing 787'', ''Boeing 787-8'', ''Boeing 787-9'', ''Boeing 787-10'']),
      (''Boeing 747'', [''Boeing 747'', ''Boeing 747-400'', ''Boeing 747-8'']),
      (''Boeing 757'', [''Boeing 757'', ''Boeing 757-200'', ''Boeing 757-300'']),
      (''Boeing 767'', [''Boeing 767'', ''Boeing 767-300'', ''Boeing 767-400'']),
      (''Airbus A320'', [''Airbus A319'', ''Airbus A320'', ''Airbus A321'']),
      (''Airbus A330'', [''Airbus A330'', ''Airbus A330-200'', ''Airbus A330-300'', ''Airbus A330-900'']),
      (''Airbus A350'', [''Airbus A350'', ''Airbus A350-900'', ''Airbus A350-1000'']),
      (''Airbus A380'', [''Airbus A380'', ''Airbus A380-800'']),
      (''Embraer E170'', [''Embraer E170'', ''Embraer E175'']),
      (''Embraer E190'', [''Embraer E190'', ''Embraer E195'']),
      (''Embraer E175-E2'', [''Embraer E175-E2'', ''Embraer E170-E2'']),
      (''Embraer E190-E2'', [''Embraer E190-E2'', ''Embraer E195-E2'']),
      (''Bombardier CRJ'', [''Bombardier CRJ'', ''Bombardier CRJ-200'', ''Bombardier CRJ-700'', ''Bombardier CRJ-900'']),
      (''ATR 42/72'', [''ATR 42/72'', ''ATR 42'', ''ATR 72'']),
      (''DHC Dash 8'', [''DHC Dash 8'', ''DHC Dash 8-400''])]"

text \<open>\<^verbatim>\<open>members.includes(v)\<close>: a member of the list strictly equal to \<open>v\<close>.\<close>

definition members_includes :: "string list \<Rightarrow> jsval \<Rightarrow> bool" where
  "members_includes members v = (case v of Str s \<Rightarrow> s \<in> set members | _ \<Rightarrow> False)"

text \<open>The loop of \<^verbatim>\<open>isSameFamily\<close> over the entries of the table, in order.\<close>

fun family_loop :: "(string \<times> string list) list \<Rightarrow> jsval \<Rightarrow> jsval \<Rightarrow> bool" where
  "family_loop [] aircraft1 aircraft2 = False"
| "family_loop ((family, members) # rest) aircraft1 aircraft2 =
     (let has1 = members_includes members aircraft1;
          has2 = members_includes members aircraft2
      in if has1 \<and> has2 then True else family_loop rest aircraft1 aircraft2)"

definition isSameFamily :: "jsval \<Rightarrow> jsval \<Rightarrow> bool" where
  "isSameFamily aircraft1 aircraft2 =
     (if falsy aircraft1 \<or> falsy aircraft2 then False
      else if aircraft1 = aircraft2 then True
      else family_loop AIRCRAFT_FAMILIES aircraft1 aircraft2)"

section \<open>The field comparator (eval-final.js)\<close>

text \<open>
  A comparison holds \<^verbatim>\<open>match\<close> (\<^verbatim>\<open>true\<close>, \<^verbatim>\<open>false\<close>, or \<^verbatim>\<open>null\<close> for a field excluded
  from scoring, here \<open>None\<close>) and \<^verbatim>\<open>grade\<close> (a number, or \<^verbatim>\<open>null\<close>, here \<open>None\<close>).
\<close>

record FieldComparison =
  match :: "bool option"
  grade :: "real option"

definition verdict :: "bool \<Rightarrow> real \<Rightarrow> FieldComparison" where
  "verdict m g = \<lparr>match = Some m, grade = Some g\<rparr>"

definition excluded :: FieldComparison where
  "excluded = \<lparr>match = None, grade = None\<rparr>"

text \<open>
  The guard on the extracted value comes first, before the \<^verbatim>\<open>switch\<close> on the field
  name; the cases of the \<^verbatim>\<open>switch\<close> follow in the source's order.
\<close>

definition compareField :: "string \<Rightarrow> jsval \<Rightarrow> jsval \<Rightarrow> FieldComparison" where
  "compareField field extracted groundTruth =
     (if falsy extracted \<or> extracted = Str ''null'' \<or> extracted = Null then verdict False 0
      else if field = ''flightNumber'' then excluded
      else if field = ''airlineCode'' \<or> field = ''departureAirportCode''
              \<or> field = ''arrivalAirportCode'' \<or> field = ''flightDate'' then
        \<lparr>match = Some (extracted = groundTruth),
         grade = Some (if extracted = groundTruth then 1 else 0)\<rparr>
      else if field = ''aircraftName'' then
        (if extracted = groundTruth then verdict True 1
         else if isSameFamily extracted groundTruth then verdict True (8 / 10)
         else verdict False 0)
      else if field = ''flightTime'' then
        (let diff = getTimeDiffMinutes extracted groundTruth
         in if js_le diff (Fin 15) then verdict True 1
            else if js_le diff (Fin 30) then verdict True (7 / 10)
            else verdict False 0)
      else verdict False 0)"

section \<open>Evaluation results\<close>

text \<open>
  An object is the list of its keys and values, in insertion order; reading a key that
  the object lacks gives \<^verbatim>\<open>undefined\<close>.
\<close>

type_synonym 'a obj = "(string \<times> 'a) list"

definition get_field :: "jsval obj \<Rightarrow> string \<Rightarrow> jsval" where
  "get_field object key = (case map_of object key of None \<Rightarrow> Undefined | Some v \<Rightarrow> v)"

definition all_fields :: "string list" where
  "all_fields = [''flightNumber'', ''airlineCode'', ''departureAirportCode'',
                 ''arrivalAirportCode'', ''flightDate'', ''aircraftName'', ''flightTime'']"

definition compareAllFields :: "jsval obj \<Rightarrow> jsval obj \<Rightarrow> FieldComparison obj" where
  "compareAllFields extracted groundTruth =
     map (\<lambda>field. (field, compareField field (get_field extracted field)
                                              (get_field groundTruth field)))
         all_fields"

text \<open>
  One result of a run, as the metrics read it: the extracted record, the comparison of
  \<^verbatim>\<open>compareAllFields\<close> (the metrics guard against its absence) and the review flags.
  Every caller stores an extracted record, and \<^verbatim>\<open>calculateFieldMetrics\<close> reads it
  without a guard, so that field is not optional here.
\<close>

record EvaluationResult =
  extracted :: "jsval obj"
  comparison :: "FieldComparison obj option"
  flags :: "string list option"

text \<open>\<^verbatim>\<open>r.comparison && r.comparison[field]\<close>\<close>

definition comparison_of :: "EvaluationResult \<Rightarrow> string \<Rightarrow> FieldComparison option" where
  "comparison_of r field =
     (case comparison r of None \<Rightarrow> None | Some cmp \<Rightarrow> map_of cmp field)"

text \<open>\<^verbatim>\<open>value !== null && value !== undefined && value !== 'null'\<close>\<close>

definition is_extracted :: "jsval \<Rightarrow> bool" where
  "is_extracted v = (v \<noteq> Null \<and> v \<noteq> Undefined \<and> v \<noteq> Str ''null'')"

section \<open>Metrics (lib/metrics.js)\<close>

text \<open>
  The metrics of one field. The source names the second count \<^verbatim>\<open>extracted\<close>; the
  formatted percentage strings beside the raw values are presentation and left out.
\<close>

record FieldMetrics =
  total :: nat
  extractedCount :: nat
  correct :: nat
  precisionRaw :: jsnum
  recallRaw :: jsnum
  f1Raw :: jsnum

definition calculateFieldMetrics :: "EvaluationResult list \<Rightarrow> string \<Rightarrow> FieldMetrics" where
  "calculateFieldMetrics results field =
     (let n = length results;
          ex = length (filter (\<lambda>r. is_extracted (get_field (extracted r) field)) results);
          co = length (filter (\<lambda>r. case comparison_of r field of
                                        None \<Rightarrow> False
                                      | Some c \<Rightarrow> match c = Some True) results);
          precision = (if 0 < ex then js_div (Fin (real co)) (Fin (real ex)) else Fin 0);
          recall = (if 0 < n then js_div (Fin (real co)) (Fin (real n)) else Fin 0);
          f1 = (if js_lt (Fin 0) (js_add precision recall)
                then js_div (js_mul (Fin 2) (js_mul precision recall)) (js_add precision recall)
                else Fin 0)
      in \<lparr>total = n, extractedCount = ex, correct = co,
          precisionRaw = precision, recallRaw = recall, f1Raw = f1\<rparr>)"

text \<open>The weight table; \<^verbatim>\<open>weights[field] || 1.0\<close> gives 1 to any other field name.\<close>

definition weights :: "real obj" where
  "weights = [(''airlineCode'', 5 / 10), (''departureAirportCode'', 5 / 10),
              (''arrivalAirportCode'', 5 / 10), (''flightDate'', 5 / 10),
              (''aircraftName'', 15 / 10), (''flightTime'', 15 / 10)]"

definition weight_of :: "string \<Rightarrow> real" where
  "weight_of field = (case map_of weights field of None \<Rightarrow> 1 | Some w \<Rightarrow> w)"

text \<open>
  The second loop of \<^verbatim>\<open>calculateAllMetrics\<close>: the pair is
  (\<^verbatim>\<open>weightedF1Sum\<close>, \<^verbatim>\<open>totalWeight\<close>). The first loop stores an entry for every field
  of the list, so the read \<^verbatim>\<open>metrics[field]\<close> finds one; the other branch stands for
  a read that cannot happen.
\<close>

fun weighted_loop :: "FieldMetrics obj \<Rightarrow> string list \<Rightarrow> jsnum \<times> jsnum \<Rightarrow> jsnum \<times> jsnum" where
  "weighted_loop metrics [] acc = acc"
| "weighted_loop metrics (field # rest) (weightedF1Sum, totalWeight) =
     (let weight = Fin (weight_of field);
          f1 = (case map_of metrics field of None \<Rightarrow> NaN | Some m \<Rightarrow> f1Raw m)
      in weighted_loop metrics rest
           (js_add weightedF1Sum (js_mul f1 weight), js_add totalWeight weight))"

record AllMetrics =
  perField :: "FieldMetrics obj"
  weightedF1Raw :: jsnum

definition calculateAllMetrics :: "EvaluationResult list \<Rightarrow> string list \<Rightarrow> AllMetrics" where
  "calculateAllMetrics results field_list =
     (let metrics = map (\<lambda>field. (field, calculateFieldMetrics results field)) field_list;
          (weightedF1Sum, totalWeight) = weighted_loop metrics field_list (Fin 0, Fin 0);
          overallF1 = (if js_lt (Fin 0) totalWeight then js_div weightedF1Sum totalWeight
                       else Fin 0)
      in \<lparr>perField = metrics, weightedF1Raw = overallF1\<rparr>)"

text \<open>The six scored fields that every caller passes (eval-final.js).\<close>

definition scored_fields :: "string list" where
  "scored_fields = [''airlineCode'', ''departureAirportCode'', ''arrivalAirportCode'',
                    ''flightDate'', ''aircraftName'', ''flightTime'']"

text \<open>
  The grade loop of \<^verbatim>\<open>getSummaryStats\<close>: the pair is (\<^verbatim>\<open>totalGrade\<close>, \<^verbatim>\<open>gradeCount\<close>),
  and a comparison counts when its grade is a number.
\<close>

definition add_grade :: "real \<times> nat \<Rightarrow> FieldComparison \<Rightarrow> real \<times> nat" where
  "add_grade acc c =
     (case grade c of None \<Rightarrow> acc | Some g \<Rightarrow> (fst acc + g, snd acc + 1))"

definition add_result_grades :: "real \<times> nat \<Rightarrow> EvaluationResult \<Rightarrow> real \<times> nat" where
  "add_result_grades acc r =
     (case comparison r of None \<Rightarrow> acc | Some cmp \<Rightarrow> foldl add_grade acc (map snd cmp))"

record SummaryStats =
  totalFlights :: nat
  perfectMatches :: nat
  withData :: nat
  flaggedCount :: nat
  avgGradeRaw :: jsnum

definition getSummaryStats :: "EvaluationResult list \<Rightarrow> SummaryStats" where
  "getSummaryStats results =
     (let perfect = length (filter (\<lambda>r. case comparison r of
                                           None \<Rightarrow> False
                                         | Some cmp \<Rightarrow> list_all (\<lambda>c. match c = Some True) (map snd cmp))
                                   results);
          with_data = length (filter (\<lambda>r. list_ex is_extracted (map snd (extracted r))) results);
          flagged = length (filter (\<lambda>r. case flags r of None \<Rightarrow> False | Some fl \<Rightarrow> 0 < length fl)
                                   results);
          (totalGrade, gradeCount) = foldl add_result_grades (0, 0) results;
          avgGrade = (if 0 < gradeCount then js_div (Fin totalGrade) (Fin (real gradeCount))
                      else Fin 0)
      in \<lparr>totalFlights = length results, perfectMatches = perfect, withData = with_data,
          flaggedCount = flagged, avgGradeRaw = avgGrade\<rparr>)"

section \<open>Building a result (eval-final.js, runEvaluation)\<close>

text \<open>
  \<^verbatim>\<open>runEvaluation\<close> stores the extracted record, the comparison that
  \<^verbatim>\<open>compareAllFields\<close> computes from it and the ground truth, and the review flags.
\<close>

definition result_of :: "jsval obj \<Rightarrow> jsval obj \<Rightarrow> string list \<Rightarrow> EvaluationResult" where
  "result_of ex gt fl =
     \<lparr>extracted = ex, comparison = Some (compareAllFields ex gt), flags = Some fl\<rparr>"

text \<open>\<^verbatim>\<open>object[key] = value\<close>: the key keeps its place, a new key goes last.\<close>

definition put_field :: "string \<Rightarrow> 'a \<Rightarrow> 'a obj \<Rightarrow> 'a obj" where
  "put_field key v object = AList.update key v object"

section \<open>Notions of the specification\<close>

text \<open>
  The definitions of this section are not code of the repository: they state, in the
  words of the specification, what the theorems below compare the code with.
\<close>

text \<open>The four fields compared by exact string equality.\<close>

definition exact_fields :: "string list" where
  "exact_fields = [''airlineCode'', ''departureAirportCode'', ''arrivalAirportCode'',
                   ''flightDate'']"

text \<open>Both names are members of one family of the table.\<close>

definition in_same_family :: "jsval \<Rightarrow> jsval \<Rightarrow> bool" where
  "in_same_family a b =
     list_ex (\<lambda>(family, members). members_includes members a \<and> members_includes members b)
       AIRCRAFT_FAMILIES"





text \<open>The counts and the quotients of the per-field metrics, as real numbers.\<close>

definition extracted_count :: "EvaluationResult list \<Rightarrow> string \<Rightarrow> nat" where
  "extracted_count results field =
     length (filter (\<lambda>r. is_extracted (get_field (extracted r) field)) results)"

definition correct_count :: "EvaluationResult list \<Rightarrow> string \<Rightarrow> nat" where
  "correct_count results field =
     length (filter (\<lambda>r. map_option match (comparison_of r field) = Some (Some True)) results)"

definition precision_value :: "EvaluationResult list \<Rightarrow> string \<Rightarrow> real" where
  "precision_value results field =
     (if 0 < extracted_count results field
      then real (correct_count results field) / real (extracted_count results field) else 0)"

definition recall_value :: "EvaluationResult list \<Rightarrow> string \<Rightarrow> real" where
  "recall_value results field =
     (if 0 < length results then real (correct_count results field) / real (length results)
      else 0)"

definition f1_value :: "EvaluationResult list \<Rightarrow> string \<Rightarrow> real" where
  "f1_value results field =
     (let p = precision_value results field; r = recall_value results field
      in if 0 < p + r then 2 * p * r / (p + r) else 0)"

text \<open>
  Changing the flight number of a case: a new extracted value and a new comparison for
  the key \<^verbatim>\<open>flightNumber\<close>, every other key as it was; and the same across a batch,
  one change per case.
\<close>

definition with_flightNumber ::
    "jsval \<times> FieldComparison \<Rightarrow> EvaluationResult \<Rightarrow> EvaluationResult" where
  "with_flightNumber change r =
     r\<lparr>extracted := put_field ''flightNumber'' (fst change) (extracted r),
       comparison := map_option (put_field ''flightNumber'' (snd change)) (comparison r)\<rparr>"

definition change_flightNumbers ::
    "(jsval \<times> FieldComparison) list \<Rightarrow> EvaluationResult list \<Rightarrow> EvaluationResult list" where
  "change_flightNumbers changes results = map2 with_flightNumber changes results"

text \<open>The grades that are numbers, over all cases and all their comparisons.\<close>

definition defined_grades :: "EvaluationResult list \<Rightarrow> real list" where
  "defined_grades results =
     concat (map (\<lambda>r. case comparison r of
                          None \<Rightarrow> []
                        | Some cmp \<Rightarrow> List.map_filter grade (map snd cmp)) results)"

section \<open>Sample records\<close>

text \<open>The end-to-end scenario of the specification: one case, six fields each.\<close>

definition scenario_groundTruth :: "jsval obj" where
  "scenario_groundTruth =
     [(''airlineCode'', Str ''WN''), (''departureAirportCode'', Str ''LAS''),
      (''arrivalAirportCode'', Str ''ABQ''), (''flightDate'', Str ''16-12-2025''),
      (''aircraftName'', Str ''Boeing 737NG''), (''flightTime'', Str ''01:30'')]"

definition scenario_extracted :: "jsval obj" where
  "scenario_extracted =
     [(''airlineCode'', Str ''WN''), (''departureAirportCode'', Str ''LAS''),
      (''arrivalAirportCode'', Str ''ABQ''), (''flightDate'', Str ''16-12-2025''),
      (''aircraftName'', Str ''Boeing 737MAX''), (''flightTime'', Str ''01:50'')]"

definition scenario_result :: EvaluationResult where
  "scenario_result = result_of scenario_extracted scenario_groundTruth []"

definition scenario_batch :: "EvaluationResult list" where
  "scenario_batch = [scenario_result]"

text \<open>
  A record with all seven fields, and the same record when the flight number was not
  found.
\<close>

definition found_record :: "jsval obj" where
  "found_record =
     [(''flightNumber'', Str ''548''), (''airlineCode'', Str ''WN''),
      (''departureAirportCode'', Str ''LAS''), (''arrivalAirportCode'', Str ''ABQ''),
      (''flightDate'', Str ''16-12-2025''), (''flightTime'', Str ''01:30''),
      (''aircraftName'', Str ''Boeing 737NG'')]"

definition unfound_number_record :: "jsval obj" where
  "unfound_number_record =
     [(''flightNumber'', Null), (''airlineCode'', Str ''WN''),
      (''departureAirportCode'', Str ''LAS''), (''arrivalAirportCode'', Str ''ABQ''),
      (''flightDate'', Str ''16-12-2025''), (''flightTime'', Str ''01:30''),
      (''aircraftName'', Str ''Boeing 737NG'')]"

section \<open>Evaluation rules\<close>

lemmas number_eval =
  Number_js_def str_trim_def is_ws_def code_def parse_signed_def parse_decimal_def
  is_digit_def digits_value_def

lemmas compare_eval =
  compareField_def verdict_def excluded_def falsy_def get_field_def
  getTimeDiffMinutes_def js_sub_def timeToMinutes_def
  isSameFamily_def AIRCRAFT_FAMILIES_def members_includes_def

lemma js_add_NaN_right [simp]: "js_add x NaN = NaN"
  by (cases x) simp_all

section \<open>The flight number\<close>

lemma compareField_flightNumber_present:
  "\<not> falsy x \<Longrightarrow> x \<noteq> Str ''null'' \<Longrightarrow> compareField ''flightNumber'' x y = excluded"
  by (cases x) (simp_all add: compareField_def falsy_def)

lemma flightNumber_never_true: "match (compareField ''flightNumber'' x y) \<noteq> Some True"
  by (simp add: compareField_def verdict_def excluded_def)

text \<open>
  C1. The claim: \<^verbatim>\<open>compareField('flightNumber', x, y)\<close> is the excluded verdict for all
  \<open>x\<close> and \<open>y\<close>, also when \<open>x\<close> is \<^verbatim>\<open>null\<close>, missing or the string \<^verbatim>\<open>'null'\<close>.
  The code checks the extracted value before it looks at the field name, so a flight number
  that is \<^verbatim>\<open>null\<close>, \<^verbatim>\<open>undefined\<close>, empty or \<^verbatim>\<open>'null'\<close> gets match \<^verbatim>\<open>false\<close> and the
  numeric grade 0 for every ground truth \<open>y\<close>, which is not the excluded verdict.
\<close>

theorem flightNumber_missing_is_scored:
  "compareField ''flightNumber'' Null y = \<lparr>match = Some False, grade = Some 0\<rparr>
   \<and> compareField ''flightNumber'' Undefined y = \<lparr>match = Some False, grade = Some 0\<rparr>
   \<and> compareField ''flightNumber'' (Str ''null'') y = \<lparr>match = Some False, grade = Some 0\<rparr>
   \<and> compareField ''flightNumber'' (Str []) y = \<lparr>match = Some False, grade = Some 0\<rparr>
   \<and> compareField ''flightNumber'' Null (Str ''548'') \<noteq> excluded"
  by (simp add: compareField_def falsy_def verdict_def excluded_def)

section \<open>Exact fields\<close>

text \<open>
  C7, as the code has it. For each of the four exact fields: a value that passes the guard
  (not \<^verbatim>\<open>null\<close>, not \<^verbatim>\<open>undefined\<close>, not empty, not \<^verbatim>\<open>'null'\<close>) compared with itself gives
  match \<^verbatim>\<open>true\<close> and grade 1, and two unequal values give match \<^verbatim>\<open>false\<close> and grade 0.
\<close>

theorem exact_fields_policy:
  assumes "f \<in> set exact_fields"
  shows "(\<not> falsy v \<and> v \<noteq> Str ''null'' \<longrightarrow>
            compareField f v v = \<lparr>match = Some True, grade = Some 1\<rparr>)
         \<and> (e \<noteq> g \<longrightarrow> compareField f e g = \<lparr>match = Some False, grade = Some 0\<rparr>)"
  using assms
  by (auto simp add: compareField_def verdict_def exact_fields_def falsy_def)

theorem exact_fields_policy_witness:
  "''flightDate'' \<in> set exact_fields
   \<and> \<not> falsy (Str ''16-12-2025'')
   \<and> compareField ''flightDate'' (Str ''16-12-2025'') (Str ''16-12-2025'')
       = \<lparr>match = Some True, grade = Some 1\<rparr>
   \<and> compareField ''flightDate'' (Str ''16-12-2025'') (Str ''17-12-2025'')
       = \<lparr>match = Some False, grade = Some 0\<rparr>"
  using exact_fields_policy [of "''flightDate''" "Str ''16-12-2025''" "Str ''16-12-2025''"
                                "Str ''17-12-2025''"]
  by (simp add: exact_fields_def falsy_def)

text \<open>
  The claim as stated, for every non-null value, fails at the empty string: it is neither
  \<^verbatim>\<open>null\<close> nor \<^verbatim>\<open>undefined\<close>, and compared with itself it gives match \<^verbatim>\<open>false\<close> and
  grade 0.
\<close>

theorem exact_match_empty_counterexample:
  "Str [] \<noteq> Null \<and> Str [] \<noteq> Undefined
   \<and> compareField ''airlineCode'' (Str []) (Str [])
       = \<lparr>match = Some False, grade = Some 0\<rparr>"
  by (simp add: compareField_def falsy_def verdict_def)

section \<open>Aircraft names\<close>

lemma family_loop_iff:
  "family_loop fams a b
     = list_ex (\<lambda>(family, members). members_includes members a \<and> members_includes members b)
         fams"
  by (induction fams a b rule: family_loop.induct) (auto simp add: Let_def)

lemma no_empty_member: "\<not> in_same_family a (Str [])"
  by (simp add: in_same_family_def AIRCRAFT_FAMILIES_def members_includes_def)

lemma in_same_family_falsy: "falsy b \<Longrightarrow> \<not> in_same_family a b"
  by (cases b)
     (simp_all add: falsy_def no_empty_member,
      simp_all add: in_same_family_def members_includes_def list_ex_iff)

lemma isSameFamily_iff:
  "\<not> falsy a \<Longrightarrow> a \<noteq> b \<Longrightarrow> isSameFamily a b = in_same_family a b"
  using in_same_family_falsy [of b a]
  by (auto simp add: isSameFamily_def family_loop_iff in_same_family_def)

text \<open>
  C6, as the code has it. For an extracted name that passes the guard (not \<^verbatim>\<open>null\<close>, not
  \<^verbatim>\<open>undefined\<close>, not empty, not \<^verbatim>\<open>'null'\<close>) and any ground truth: equal names give match
  \<^verbatim>\<open>true\<close> and grade 1; otherwise two members of one family of the table give match
  \<^verbatim>\<open>true\<close> and grade 0.8; otherwise match \<^verbatim>\<open>false\<close> and grade 0.
\<close>

theorem aircraftName_three_tier:
  assumes "\<not> falsy e" and "e \<noteq> Str ''null''"
  shows "compareField ''aircraftName'' e g =
           (if e = g then \<lparr>match = Some True, grade = Some 1\<rparr>
            else if in_same_family e g then \<lparr>match = Some True, grade = Some (8 / 10)\<rparr>
            else \<lparr>match = Some False, grade = Some 0\<rparr>)"
proof -
  have "e \<noteq> Null" using assms(1) by (auto simp add: falsy_def)
  then show ?thesis
    using assms isSameFamily_iff [of e g]
    by (simp add: compareField_def verdict_def)
qed

theorem aircraftName_three_tier_witness:
  "\<not> falsy (Str ''Boeing 737MAX'') \<and> \<not> falsy (Str ''Boeing 737NG'')
   \<and> \<not> falsy (Str ''Airbus A320'')
   \<and> compareField ''aircraftName'' (Str ''Boeing 737MAX'') (Str ''Boeing 737NG'')
       = \<lparr>match = Some True, grade = Some (8 / 10)\<rparr>
   \<and> compareField ''aircraftName'' (Str ''Boeing 737NG'') (Str ''Boeing 737NG'')
       = \<lparr>match = Some True, grade = Some 1\<rparr>
   \<and> compareField ''aircraftName'' (Str ''Airbus A320'') (Str ''Boeing 737NG'')
       = \<lparr>match = Some False, grade = Some 0\<rparr>"
  using aircraftName_three_tier [of "Str ''Boeing 737MAX''" "Str ''Boeing 737NG''"]
        aircraftName_three_tier [of "Str ''Boeing 737NG''" "Str ''Boeing 737NG''"]
        aircraftName_three_tier [of "Str ''Airbus A320''" "Str ''Boeing 737NG''"]
  by (simp add: falsy_def in_same_family_def AIRCRAFT_FAMILIES_def members_includes_def)

text \<open>
  The claim as stated, for all non-null names, fails at the empty string: two equal
  names, neither \<^verbatim>\<open>null\<close> nor \<^verbatim>\<open>undefined\<close>, give match \<^verbatim>\<open>false\<close> and grade 0.
\<close>

theorem aircraftName_empty_counterexample:
  "Str [] \<noteq> Null \<and> Str [] \<noteq> Undefined
   \<and> compareField ''aircraftName'' (Str []) (Str [])
       = \<lparr>match = Some False, grade = Some 0\<rparr>"
  by (simp add: compareField_def falsy_def verdict_def)

section \<open>Durations\<close>















section \<open>The codomain of the comparator\<close>

text \<open>
  C10. For every field name and all values, the grade of \<^verbatim>\<open>compareField\<close> is absent or
  one of 0, 0.7, 0.8 and 1; and a field name that is none of the seven gives match
  \<^verbatim>\<open>false\<close> and grade 0.
\<close>

theorem compareField_grade_codomain:
  "grade (compareField f e g) \<in> {None, Some 0, Some (7 / 10), Some (8 / 10), Some 1}
   \<and> (f \<notin> set all_fields \<longrightarrow>
        compareField f e g = \<lparr>match = Some False, grade = Some 0\<rparr>)"
  by (simp add: compareField_def verdict_def excluded_def all_fields_def Let_def)

theorem compareField_grade_codomain_witness:
  "''seatClass'' \<notin> set all_fields
   \<and> grade (compareField ''seatClass'' (Str ''12A'') (Str ''12A''))
       \<in> {None, Some 0, Some (7 / 10), Some (8 / 10), Some 1}
   \<and> compareField ''seatClass'' (Str ''12A'') (Str ''12A'')
       = \<lparr>match = Some False, grade = Some 0\<rparr>"
  using compareField_grade_codomain [of "''seatClass''" "Str ''12A''" "Str ''12A''"]
  by (simp add: all_fields_def)

section \<open>Per-field metrics\<close>

lemma correct_filter:
  "(case comparison_of r field of None \<Rightarrow> False | Some c \<Rightarrow> match c = Some True)
     = (map_option match (comparison_of r field) = Some (Some True))"
  by (cases "comparison_of r field") simp_all

lemma calculateFieldMetrics_values:
  "calculateFieldMetrics results field =
     \<lparr>total = length results, extractedCount = extracted_count results field,
      correct = correct_count results field,
      precisionRaw = Fin (precision_value results field),
      recallRaw = Fin (recall_value results field),
      f1Raw = Fin (f1_value results field)\<rparr>"
  by (simp add: calculateFieldMetrics_def Let_def extracted_count_def correct_count_def
        precision_value_def recall_value_def f1_value_def correct_filter)

text \<open>
  C8. \<^verbatim>\<open>calculateFieldMetrics\<close> is a total function of a batch and a field name, and its
  precision, recall and F1 are finite numbers, never NaN or an infinity: precision is
  correct over extracted when a value was extracted and 0 otherwise, recall is correct
  over total when the batch is not empty and 0 otherwise, F1 is 2pr/(p+r) when p+r is
  positive and 0 otherwise. On the empty batch all three are 0.
\<close>

theorem calculateFieldMetrics_finite:
  "total (calculateFieldMetrics results field) = length results
   \<and> extractedCount (calculateFieldMetrics results field) = extracted_count results field
   \<and> correct (calculateFieldMetrics results field) = correct_count results field
   \<and> precisionRaw (calculateFieldMetrics results field)
       = Fin (if 0 < extractedCount (calculateFieldMetrics results field)
              then real (correct (calculateFieldMetrics results field))
                   / real (extractedCount (calculateFieldMetrics results field))
              else 0)
   \<and> recallRaw (calculateFieldMetrics results field)
       = Fin (if 0 < total (calculateFieldMetrics results field)
              then real (correct (calculateFieldMetrics results field))
                   / real (total (calculateFieldMetrics results field))
              else 0)
   \<and> (\<exists>p r. precisionRaw (calculateFieldMetrics results field) = Fin p
           \<and> recallRaw (calculateFieldMetrics results field) = Fin r
           \<and> f1Raw (calculateFieldMetrics results field)
               = Fin (if 0 < p + r then 2 * p * r / (p + r) else 0))
   \<and> precisionRaw (calculateFieldMetrics [] field) = Fin 0
   \<and> recallRaw (calculateFieldMetrics [] field) = Fin 0
   \<and> f1Raw (calculateFieldMetrics [] field) = Fin 0"
  by (simp add: calculateFieldMetrics_values precision_value_def recall_value_def f1_value_def
        extracted_count_def correct_count_def Let_def)

section \<open>The overall score\<close>

lemma weightedF1Raw_scored:
  "weightedF1Raw (calculateAllMetrics results scored_fields)
     = Fin ((5 / 10 * f1_value results ''airlineCode''
             + 5 / 10 * f1_value results ''departureAirportCode''
             + 5 / 10 * f1_value results ''arrivalAirportCode''
             + 5 / 10 * f1_value results ''flightDate''
             + 15 / 10 * f1_value results ''aircraftName''
             + 15 / 10 * f1_value results ''flightTime'') / 5)"
  by (simp add: calculateAllMetrics_def scored_fields_def calculateFieldMetrics_values
        weight_of_def weights_def Let_def)

lemma with_flightNumber_get_field:
  "field \<noteq> ''flightNumber'' \<Longrightarrow>
     get_field (extracted (with_flightNumber change r)) field = get_field (extracted r) field"
  by (simp add: with_flightNumber_def put_field_def get_field_def update_conv')

lemma with_flightNumber_comparison_of:
  "field \<noteq> ''flightNumber'' \<Longrightarrow>
     comparison_of (with_flightNumber change r) field = comparison_of r field"
  by (cases "comparison r")
     (simp_all add: with_flightNumber_def put_field_def comparison_of_def update_conv')

lemma counts_change_flightNumbers:
  assumes "field \<noteq> ''flightNumber''"
  shows "length changes = length results \<Longrightarrow>
           extracted_count (change_flightNumbers changes results) field
             = extracted_count results field
           \<and> correct_count (change_flightNumbers changes results) field
             = correct_count results field"
proof (induction changes results rule: list_induct2)
  case Nil
  then show ?case by (simp add: change_flightNumbers_def)
next
  case (Cons c cs r rs)
  then show ?case
    using assms
    by (simp add: change_flightNumbers_def extracted_count_def correct_count_def
          with_flightNumber_get_field with_flightNumber_comparison_of)
qed

lemma f1_value_change_flightNumbers:
  assumes "field \<noteq> ''flightNumber''" and "length changes = length results"
  shows "f1_value (change_flightNumbers changes results) field = f1_value results field"
proof -
  have "length (change_flightNumbers changes results) = length results"
    using assms(2) by (simp add: change_flightNumbers_def)
  then show ?thesis
    using counts_change_flightNumbers [OF assms]
    by (simp add: f1_value_def precision_value_def recall_value_def)
qed

lemma scenario_comparison:
  "compareAllFields scenario_extracted scenario_groundTruth =
     [(''flightNumber'', \<lparr>match = Some False, grade = Some 0\<rparr>),
      (''airlineCode'', \<lparr>match = Some True, grade = Some 1\<rparr>),
      (''departureAirportCode'', \<lparr>match = Some True, grade = Some 1\<rparr>),
      (''arrivalAirportCode'', \<lparr>match = Some True, grade = Some 1\<rparr>),
      (''flightDate'', \<lparr>match = Some True, grade = Some 1\<rparr>),
      (''aircraftName'', \<lparr>match = Some True, grade = Some (8 / 10)\<rparr>),
      (''flightTime'', \<lparr>match = Some True, grade = Some (7 / 10)\<rparr>)]"
  by (simp add: compareAllFields_def all_fields_def scenario_extracted_def
        scenario_groundTruth_def compare_eval number_eval)

lemma scenario_result_fields:
  "extracted scenario_result = scenario_extracted"
  "comparison_of scenario_result field
     = map_of (compareAllFields scenario_extracted scenario_groundTruth) field"
  by (simp_all add: scenario_result_def result_of_def comparison_of_def)

lemma single_counts:
  "extracted_count [r] field = (if is_extracted (get_field (extracted r) field) then 1 else 0)"
  "correct_count [r] field
     = (if map_option match (comparison_of r field) = Some (Some True) then 1 else 0)"
  by (simp_all add: extracted_count_def correct_count_def)

lemma f1_value_single:
  assumes "is_extracted (get_field (extracted r) field)"
    and "map_option match (comparison_of r field) = Some (Some True)"
  shows "f1_value [r] field = 1"
  using assms
  by (simp add: f1_value_def precision_value_def recall_value_def single_counts)

lemma scenario_f1:
  assumes "field \<in> set scored_fields"
  shows "f1_value scenario_batch field = 1"
proof -
  have ex: "is_extracted (get_field (extracted scenario_result) field)"
    using assms
    by (auto simp add: scenario_result_fields(1) scenario_extracted_def get_field_def
          is_extracted_def scored_fields_def)
  have co: "map_option match (comparison_of scenario_result field) = Some (Some True)"
    using assms unfolding scenario_result_fields(2) scenario_comparison
    by (auto simp add: scored_fields_def)
  show ?thesis
    unfolding scenario_batch_def by (rule f1_value_single [OF ex co])
qed

lemma scenario_f1_each:
  "f1_value scenario_batch ''airlineCode'' = 1"
  "f1_value scenario_batch ''departureAirportCode'' = 1"
  "f1_value scenario_batch ''arrivalAirportCode'' = 1"
  "f1_value scenario_batch ''flightDate'' = 1"
  "f1_value scenario_batch ''aircraftName'' = 1"
  "f1_value scenario_batch ''flightTime'' = 1"
  by (simp_all add: scenario_f1 scored_fields_def)

lemma scenario_overall:
  "weightedF1Raw (calculateAllMetrics scenario_batch scored_fields) = Fin 1"
  unfolding weightedF1Raw_scored by (simp add: scenario_f1_each)

text \<open>
  C9. Over the six scored fields the overall score is the weighted mean of the per-field
  F1 values, with weight 0.5 for the airline, the two airports and the date and weight 1.5
  for the aircraft and the duration. The flight number is not among the scored fields, and
  a batch in which only the flight numbers were changed (the extracted value and its
  comparison, case by case) has the same overall score.
\<close>

theorem overall_weighted_mean:
  "(\<exists>F. (\<forall>field. f1Raw (calculateFieldMetrics results field) = Fin (F field))
        \<and> weightedF1Raw (calculateAllMetrics results scored_fields)
            = Fin ((5 / 10 * F ''airlineCode'' + 5 / 10 * F ''departureAirportCode''
                    + 5 / 10 * F ''arrivalAirportCode'' + 5 / 10 * F ''flightDate''
                    + 15 / 10 * F ''aircraftName'' + 15 / 10 * F ''flightTime'')
                   / (5 / 10 + 5 / 10 + 5 / 10 + 5 / 10 + 15 / 10 + 15 / 10)))
   \<and> ''flightNumber'' \<notin> set scored_fields
   \<and> (length changes = length results \<longrightarrow>
        weightedF1Raw (calculateAllMetrics (change_flightNumbers changes results) scored_fields)
          = weightedF1Raw (calculateAllMetrics results scored_fields))"
proof (intro conjI impI)
  show "\<exists>F. (\<forall>field. f1Raw (calculateFieldMetrics results field) = Fin (F field))
        \<and> weightedF1Raw (calculateAllMetrics results scored_fields)
            = Fin ((5 / 10 * F ''airlineCode'' + 5 / 10 * F ''departureAirportCode''
                    + 5 / 10 * F ''arrivalAirportCode'' + 5 / 10 * F ''flightDate''
                    + 15 / 10 * F ''aircraftName'' + 15 / 10 * F ''flightTime'')
                   / (5 / 10 + 5 / 10 + 5 / 10 + 5 / 10 + 15 / 10 + 15 / 10))"
    by (rule exI [of _ "f1_value results"])
       (simp add: weightedF1Raw_scored calculateFieldMetrics_values)
next
  show "''flightNumber'' \<notin> set scored_fields"
    by (simp add: scored_fields_def)
next
  assume "length changes = length results"
  then show "weightedF1Raw
               (calculateAllMetrics (change_flightNumbers changes results) scored_fields)
          = weightedF1Raw (calculateAllMetrics results scored_fields)"
    by (simp add: weightedF1Raw_scored f1_value_change_flightNumbers)
qed

text \<open>
  The scenario's case with the flight number 9999 written into it, compared as a wrong
  answer: the overall score stays 1.
\<close>

theorem overall_weighted_mean_witness:
  "length [(Str ''9999'', \<lparr>match = Some False, grade = Some 0\<rparr>)] = length scenario_batch
   \<and> weightedF1Raw
        (calculateAllMetrics
           (change_flightNumbers [(Str ''9999'', \<lparr>match = Some False, grade = Some 0\<rparr>)]
              scenario_batch)
           scored_fields)
       = Fin 1"
  using overall_weighted_mean
          [of scenario_batch "[(Str ''9999'', \<lparr>match = Some False, grade = Some 0\<rparr>)]"]
  by (simp add: scenario_overall) (simp add: scenario_batch_def)

section \<open>The end-to-end scenario\<close>

text \<open>
  C2, as the code has it. In the scenario the six scored comparisons have the grades
  1, 1, 1, 1, 0.8 and 0.7, and every one of them has match \<^verbatim>\<open>true\<close>. The metrics count
  matches, not grades, so each per-field F1 is 1 and the overall weighted F1 is 1.
\<close>

theorem scenario_grades_and_overall:
  "map (\<lambda>field. map_option grade (comparison_of scenario_result field)) scored_fields
     = [Some (Some 1), Some (Some 1), Some (Some 1), Some (Some 1),
        Some (Some (8 / 10)), Some (Some (7 / 10))]
   \<and> map (\<lambda>field. map_option match (comparison_of scenario_result field)) scored_fields
     = [Some (Some True), Some (Some True), Some (Some True), Some (Some True),
        Some (Some True), Some (Some True)]
   \<and> map (\<lambda>field. f1Raw (calculateFieldMetrics scenario_batch field)) scored_fields
     = [Fin 1, Fin 1, Fin 1, Fin 1, Fin 1, Fin 1]
   \<and> weightedF1Raw (calculateAllMetrics scenario_batch scored_fields) = Fin 1"
proof (intro conjI)
  show "map (\<lambda>field. map_option grade (comparison_of scenario_result field)) scored_fields
     = [Some (Some 1), Some (Some 1), Some (Some 1), Some (Some 1),
        Some (Some (8 / 10)), Some (Some (7 / 10))]"
    unfolding scenario_result_fields(2) scenario_comparison by (simp add: scored_fields_def)
  show "map (\<lambda>field. map_option match (comparison_of scenario_result field)) scored_fields
     = [Some (Some True), Some (Some True), Some (Some True), Some (Some True),
        Some (Some True), Some (Some True)]"
    unfolding scenario_result_fields(2) scenario_comparison by (simp add: scored_fields_def)
  show "map (\<lambda>field. f1Raw (calculateFieldMetrics scenario_batch field)) scored_fields
     = [Fin 1, Fin 1, Fin 1, Fin 1, Fin 1, Fin 1]"
    unfolding calculateFieldMetrics_values by (simp add: scored_fields_def scenario_f1_each)
  show "weightedF1Raw (calculateAllMetrics scenario_batch scored_fields) = Fin 1"
    by (rule scenario_overall)
qed

text \<open>
  The claim as stated fails in the scenario: the overall weighted F1 is 1, which is not
  0.85 and is not below 1.
\<close>

theorem scenario_overall_counterexample:
  "weightedF1Raw (calculateAllMetrics scenario_batch scored_fields) = Fin 1
   \<and> weightedF1Raw (calculateAllMetrics scenario_batch scored_fields) \<noteq> Fin (85 / 100)
   \<and> \<not> js_lt (weightedF1Raw (calculateAllMetrics scenario_batch scored_fields)) (Fin 1)"
  unfolding scenario_overall by simp

section \<open>Summary statistics\<close>

lemma found_comparison:
  "compareAllFields found_record found_record =
     [(''flightNumber'', \<lparr>match = None, grade = None\<rparr>),
      (''airlineCode'', \<lparr>match = Some True, grade = Some 1\<rparr>),
      (''departureAirportCode'', \<lparr>match = Some True, grade = Some 1\<rparr>),
      (''arrivalAirportCode'', \<lparr>match = Some True, grade = Some 1\<rparr>),
      (''flightDate'', \<lparr>match = Some True, grade = Some 1\<rparr>),
      (''aircraftName'', \<lparr>match = Some True, grade = Some 1\<rparr>),
      (''flightTime'', \<lparr>match = Some True, grade = Some 1\<rparr>)]"
  by (simp add: compareAllFields_def all_fields_def found_record_def compare_eval number_eval)

lemma unfound_number_comparison:
  "compareAllFields unfound_number_record found_record =
     [(''flightNumber'', \<lparr>match = Some False, grade = Some 0\<rparr>),
      (''airlineCode'', \<lparr>match = Some True, grade = Some 1\<rparr>),
      (''departureAirportCode'', \<lparr>match = Some True, grade = Some 1\<rparr>),
      (''arrivalAirportCode'', \<lparr>match = Some True, grade = Some 1\<rparr>),
      (''flightDate'', \<lparr>match = Some True, grade = Some 1\<rparr>),
      (''aircraftName'', \<lparr>match = Some True, grade = Some 1\<rparr>),
      (''flightTime'', \<lparr>match = Some True, grade = Some 1\<rparr>)]"
  by (simp add: compareAllFields_def all_fields_def found_record_def unfound_number_record_def
        compare_eval number_eval)

lemma compareAllFields_not_all_true:
  "\<not> list_all (\<lambda>c. match c = Some True) (map snd (compareAllFields ex gt))"
  by (simp add: compareAllFields_def all_fields_def flightNumber_never_true)

text \<open>
  C3. The claim: \<^verbatim>\<open>perfectMatches\<close> counts the cases in which every comparison that is
  not excluded has match \<^verbatim>\<open>true\<close>. The code asks \<^verbatim>\<open>match === true\<close> of every comparison
  of the case, the flight number's too, whose match is \<^verbatim>\<open>null\<close> or \<^verbatim>\<open>false\<close>: a case
  with all six scored fields right and the flight number found is not counted, and no
  batch built by \<^verbatim>\<open>compareAllFields\<close> has a perfect match.
\<close>

theorem perfectMatches_always_zero:
  "perfectMatches (getSummaryStats [result_of found_record found_record []]) = 0
   \<and> map (\<lambda>field. map_option match (map_of (compareAllFields found_record found_record) field))
        all_fields
      = [Some None, Some (Some True), Some (Some True), Some (Some True), Some (Some True),
         Some (Some True), Some (Some True)]
   \<and> perfectMatches (getSummaryStats (map (\<lambda>(ex, gt, fl). result_of ex gt fl) cases)) = 0"
proof (intro conjI)
  have none: "filter (\<lambda>r. case comparison r of None \<Rightarrow> False
                | Some cmp \<Rightarrow> list_all (\<lambda>c. match c = Some True) (map snd cmp))
           (map (\<lambda>(ex, gt, fl). result_of ex gt fl) cs) = []" for cs
    by (induction cs) (auto simp add: result_of_def compareAllFields_not_all_true)
  show "perfectMatches (getSummaryStats (map (\<lambda>(ex, gt, fl). result_of ex gt fl) cases)) = 0"
    by (simp add: getSummaryStats_def Let_def none split: prod.splits)
  show "perfectMatches (getSummaryStats [result_of found_record found_record []]) = 0"
    by (simp add: getSummaryStats_def Let_def result_of_def compareAllFields_not_all_true
          split: prod.splits)
  show "map (\<lambda>field. map_option match (map_of (compareAllFields found_record found_record) field))
        all_fields
      = [Some None, Some (Some True), Some (Some True), Some (Some True), Some (Some True),
         Some (Some True), Some (Some True)]"
    unfolding found_comparison by (simp add: all_fields_def)
qed

lemma foldl_add_grade:
  "foldl add_grade acc cs
     = (fst acc + sum_list (List.map_filter grade cs),
        snd acc + length (List.map_filter grade cs))"
  by (induction cs arbitrary: acc)
     (simp_all add: add_grade_def map_filter_simps split: option.splits)

lemma foldl_add_result_grades:
  "foldl add_result_grades acc rs
     = (fst acc + sum_list (defined_grades rs), snd acc + length (defined_grades rs))"
  by (induction rs arbitrary: acc)
     (simp_all add: add_result_grades_def defined_grades_def foldl_add_grade
        split: option.splits)

text \<open>The average grade is the mean of the grades that are numbers, and 0 without any.\<close>

lemma avgGradeRaw_mean:
  "avgGradeRaw (getSummaryStats results)
     = Fin (if defined_grades results = [] then 0
            else sum_list (defined_grades results) / real (length (defined_grades results)))"
  by (simp add: getSummaryStats_def Let_def foldl_add_result_grades)

text \<open>
  C4. The claim: \<^verbatim>\<open>avgGrade\<close> is the mean of the grades of the comparisons that are not
  excluded, so that no grade of the flight number contributes. The code averages every
  grade that is a number, and \<^verbatim>\<open>compareField\<close> gives a flight number that was not found
  the grade 0: with all six scored fields right, the average is 6/7 when the flight number
  is \<^verbatim>\<open>null\<close>, and 1 when it was found.
\<close>

theorem avgGrade_counts_missing_flightNumber:
  "avgGradeRaw (getSummaryStats [result_of unfound_number_record found_record []])
     = Fin (6 / 7)
   \<and> avgGradeRaw (getSummaryStats [result_of found_record found_record []]) = Fin 1"
  by (simp add: getSummaryStats_def Let_def result_of_def add_result_grades_def add_grade_def
        found_comparison unfound_number_comparison)

end
